theory Spec2Isabelle
  imports Main "HOL-Library.Word"
begin

section \<open>The libSceAvPlayer entry points of shadPS4\<close>

text \<open>
  A shallow embedding of \<^verbatim>\<open>src/core/libraries/avplayer/avplayer.cpp\<close>: the priority
  derivation \<^verbatim>\<open>GetPriority\<close>, the two initialisation entry points and the entry points
  that validate a handle and either delegate to the \<^verbatim>\<open>AvPlayer\<close> object or are stubs.
  Logging (\<^verbatim>\<open>LOG_TRACE\<close>, \<^verbatim>\<open>LOG_ERROR\<close>) is left out; it changes none of the values below.
\<close>

subsection \<open>Machine types\<close>

text \<open>
  \<^verbatim>\<open>s32\<close> and \<^verbatim>\<open>u32\<close> are both 32-bit words: an implicit conversion between them keeps the
  bits, and \<^verbatim>\<open>std::min\<close>/\<^verbatim>\<open>std::max\<close> on \<^verbatim>\<open>u32\<close> compare unsigned, as the order on words does.
  A pointer is an \<open>option\<close>: \<open>None\<close> is \<^verbatim>\<open>nullptr\<close>. Structures whose declaration lives in
  \<^verbatim>\<open>avplayer.h\<close> and of which the entry points read no field are kept as their raw bytes.
\<close>

type_synonym s32 = "32 word"
type_synonym u32 = "32 word"
type_synonym u64 = "64 word"
type_synonym blob = "8 word list"
type_synonym addr = nat
type_synonym SceAvPlayerHandle = "addr option"

text \<open>
  The status constants are declared in \<^verbatim>\<open>core/libraries/error_codes.h\<close>, outside
  \<^verbatim>\<open>avplayer.cpp\<close>; the entry points take them as a parameter, as values of the type
  \<^verbatim>\<open>s32\<close> in which they are returned.
\<close>

record error_codes =
  ORBIS_OK :: s32
  ORBIS_AVPLAYER_ERROR_INVALID_PARAMS :: s32

text \<open>A status returned from a function declared \<^verbatim>\<open>bool\<close>: every nonzero value is \<^verbatim>\<open>true\<close>.\<close>

definition s32_to_bool :: "s32 \<Rightarrow> bool" where
  "s32_to_bool x = (x \<noteq> 0)"

text \<open>A \<^verbatim>\<open>bool\<close> compared with or assigned to a status: \<^verbatim>\<open>true\<close> is 1, \<^verbatim>\<open>false\<close> is 0.\<close>

definition bool_to_s32 :: "bool \<Rightarrow> s32" where
  "bool_to_s32 b = (if b then 1 else 0)"

text \<open>A status returned from a function declared \<^verbatim>\<open>u64\<close>: the signed value is widened.\<close>

definition s32_to_u64 :: "s32 \<Rightarrow> u64" where
  "s32_to_u64 x = scast x"

subsection \<open>Priority derivation\<close>

text \<open>
  \<^verbatim>\<open>constexpr u32 GetPriority(u32 base, u32 offset)\<close>: the addition is the wrapping addition
  of \<^verbatim>\<open>u32\<close>.
\<close>

definition GetPriority :: "u32 \<Rightarrow> u32 \<Rightarrow> u32" where
  "GetPriority base offset = min (min (max 637 base) 764 + offset) 767"

subsection \<open>Configuration structures\<close>

text \<open>
  The structures are declared in \<^verbatim>\<open>avplayer.h\<close>; each record has the fields that
  \<^verbatim>\<open>avplayer.cpp\<close> names. The callbacks are pointers to guest functions, of which only
  \<^verbatim>\<open>nullptr\<close> or not is read. Priorities and affinities are 32-bit, as the \<^verbatim>\<open>u32\<close>
  results of \<^verbatim>\<open>GetPriority\<close> assigned to them are.
\<close>

record SceAvPlayerMemAllocator =
  allocate :: "addr option"
  allocate_texture :: "addr option"
  deallocate :: "addr option"
  deallocate_texture :: "addr option"

record SceAvPlayerInitData =
  memory_replacement :: SceAvPlayerMemAllocator
  file_replacement :: blob
  event_replacement :: blob
  default_language :: "string option"
  num_output_video_framebuffers :: s32
  auto_start :: bool
  base_priority :: u32

record SceAvPlayerInitDataEx =
  memory_replacement :: SceAvPlayerMemAllocator
  file_replacement :: blob
  event_replacement :: blob
  default_language :: "string option"
  num_output_video_framebuffers :: s32
  auto_start :: bool
  video_decoder_priority :: u32
  video_decoder_affinity :: u32
  audio_decoder_priority :: u32
  audio_decoder_affinity :: u32
  controller_priority :: u32
  controller_affinity :: u32
  demuxer_priority :: u32
  demuxer_affinity :: u32

record ThreadPriorities =
  video_decoder_priority :: u32
  video_decoder_affinity :: u32
  audio_decoder_priority :: u32
  audio_decoder_affinity :: u32
  controller_priority :: u32
  controller_affinity :: u32
  demuxer_priority :: u32
  demuxer_affinity :: u32

subsection \<open>The player class and the host heap\<close>

text \<open>
  The class \<^verbatim>\<open>AvPlayer\<close> is declared in \<^verbatim>\<open>avplayer_impl.h\<close>, outside \<^verbatim>\<open>avplayer.cpp\<close>. Its
  methods are a parameter: each maps the state \<open>'p\<close> of the object (and the contents of a
  buffer passed by reference) to the value the entry point returns, converted to the entry
  point's return type, and the new state.
  \<open>Init\<close> stands for \<^verbatim>\<open>new AvPlayer()\<close> followed by \<^verbatim>\<open>player->Init(data, priorities)\<close>;
  \<open>GetVideoDataEx\<close> is the overload of \<^verbatim>\<open>GetVideoData\<close> on \<^verbatim>\<open>SceAvPlayerFrameInfoEx\<close>.
\<close>

record 'p AvPlayer =
  Init :: "SceAvPlayerInitData \<Rightarrow> ThreadPriorities \<Rightarrow> 'p"
  PostInit :: "'p \<Rightarrow> blob \<Rightarrow> s32 \<times> 'p \<times> blob"
  AddSource :: "'p \<Rightarrow> string option \<Rightarrow> s32 \<times> 'p"
  CurrentTime :: "'p \<Rightarrow> u64 \<times> 'p"
  EnableStream :: "'p \<Rightarrow> u32 \<Rightarrow> s32 \<times> 'p"
  GetAudioData :: "'p \<Rightarrow> blob \<Rightarrow> bool \<times> 'p \<times> blob"
  GetStreamInfo :: "'p \<Rightarrow> u32 \<Rightarrow> blob \<Rightarrow> s32 \<times> 'p \<times> blob"
  GetVideoData :: "'p \<Rightarrow> blob \<Rightarrow> bool \<times> 'p \<times> blob"
  GetVideoDataEx :: "'p \<Rightarrow> blob \<Rightarrow> bool \<times> 'p \<times> blob"
  IsActive :: "'p \<Rightarrow> bool \<times> 'p"
  Start :: "'p \<Rightarrow> s32 \<times> 'p"
  Stop :: "'p \<Rightarrow> s32 \<times> 'p"
  GetStreamCount :: "'p \<Rightarrow> s32 \<times> 'p"

text \<open>
  The host heap: the live \<^verbatim>\<open>AvPlayer\<close> objects by address, and the address the next
  \<^verbatim>\<open>new\<close> returns. A handle is valid when it is the address of a live object.
\<close>

record 'p host =
  objects :: "addr \<rightharpoonup> 'p"
  next_addr :: addr

text \<open>
  Calling a method through, or deleting, a non-null pointer that is not the address of a
  live object is undefined behaviour in C++; the model makes it a fault.
\<close>

datatype fault = DanglingHandle

subsection \<open>Entry points that validate and delegate\<close>

text \<open>
  Every entry point takes the status constants, the class \<^verbatim>\<open>AvPlayer\<close> where it calls a
  method, and the host heap, and returns its C++ return value with the heap afterwards (and
  the contents of the buffer an output pointer refers to, where there is one).
\<close>

definition sceAvPlayerAddSource ::
  "error_codes \<Rightarrow> 'p AvPlayer \<Rightarrow> 'p host \<Rightarrow> SceAvPlayerHandle \<Rightarrow> string option
     \<Rightarrow> fault + (s32 \<times> 'p host)" where
  "sceAvPlayerAddSource ec impl s handle filename =
     (if handle = None then Inr (ORBIS_AVPLAYER_ERROR_INVALID_PARAMS ec, s)
      else case objects s (the handle) of
        None \<Rightarrow> Inl DanglingHandle
      | Some p \<Rightarrow>
          (let (res, p') = AddSource impl p filename
           in Inr (res, s\<lparr>objects := (objects s)(the handle \<mapsto> p')\<rparr>)))"

definition sceAvPlayerClose ::
  "error_codes \<Rightarrow> 'p host \<Rightarrow> SceAvPlayerHandle \<Rightarrow> fault + (s32 \<times> 'p host)" where
  "sceAvPlayerClose ec s handle =
     (if handle = None then Inr (ORBIS_AVPLAYER_ERROR_INVALID_PARAMS ec, s)
      else case objects s (the handle) of
        None \<Rightarrow> Inl DanglingHandle
      | Some p \<Rightarrow> Inr (ORBIS_OK ec, s\<lparr>objects := (objects s)(the handle := None)\<rparr>))"

definition sceAvPlayerCurrentTime ::
  "error_codes \<Rightarrow> 'p AvPlayer \<Rightarrow> 'p host \<Rightarrow> SceAvPlayerHandle \<Rightarrow> fault + (u64 \<times> 'p host)" where
  "sceAvPlayerCurrentTime ec impl s handle =
     (if handle = None then Inr (s32_to_u64 (ORBIS_AVPLAYER_ERROR_INVALID_PARAMS ec), s)
      else case objects s (the handle) of
        None \<Rightarrow> Inl DanglingHandle
      | Some p \<Rightarrow>
          (let (res, p') = CurrentTime impl p
           in Inr (res, s\<lparr>objects := (objects s)(the handle \<mapsto> p')\<rparr>)))"

definition sceAvPlayerEnableStream ::
  "error_codes \<Rightarrow> 'p AvPlayer \<Rightarrow> 'p host \<Rightarrow> SceAvPlayerHandle \<Rightarrow> u32
     \<Rightarrow> fault + (s32 \<times> 'p host)" where
  "sceAvPlayerEnableStream ec impl s handle stream_id =
     (if handle = None then Inr (ORBIS_AVPLAYER_ERROR_INVALID_PARAMS ec, s)
      else case objects s (the handle) of
        None \<Rightarrow> Inl DanglingHandle
      | Some p \<Rightarrow>
          (let (res, p') = EnableStream impl p stream_id
           in Inr (res, s\<lparr>objects := (objects s)(the handle \<mapsto> p')\<rparr>)))"

definition sceAvPlayerGetAudioData ::
  "error_codes \<Rightarrow> 'p AvPlayer \<Rightarrow> 'p host \<Rightarrow> SceAvPlayerHandle \<Rightarrow> blob option
     \<Rightarrow> fault + (bool \<times> 'p host \<times> blob option)" where
  "sceAvPlayerGetAudioData ec impl s handle p_info =
     (if handle = None \<or> p_info = None
      then Inr (s32_to_bool (ORBIS_AVPLAYER_ERROR_INVALID_PARAMS ec), s, p_info)
      else case objects s (the handle) of
        None \<Rightarrow> Inl DanglingHandle
      | Some p \<Rightarrow>
          (let (res, p', info') = GetAudioData impl p (the p_info)
           in Inr (res, s\<lparr>objects := (objects s)(the handle \<mapsto> p')\<rparr>, Some info')))"

definition sceAvPlayerGetStreamInfo ::
  "error_codes \<Rightarrow> 'p AvPlayer \<Rightarrow> 'p host \<Rightarrow> SceAvPlayerHandle \<Rightarrow> u32 \<Rightarrow> blob option
     \<Rightarrow> fault + (s32 \<times> 'p host \<times> blob option)" where
  "sceAvPlayerGetStreamInfo ec impl s handle stream_id p_info =
     (if handle = None \<or> p_info = None
      then Inr (ORBIS_AVPLAYER_ERROR_INVALID_PARAMS ec, s, p_info)
      else case objects s (the handle) of
        None \<Rightarrow> Inl DanglingHandle
      | Some p \<Rightarrow>
          (let (res, p', info') = GetStreamInfo impl p stream_id (the p_info)
           in Inr (res, s\<lparr>objects := (objects s)(the handle \<mapsto> p')\<rparr>, Some info')))"

definition sceAvPlayerGetVideoData ::
  "error_codes \<Rightarrow> 'p AvPlayer \<Rightarrow> 'p host \<Rightarrow> SceAvPlayerHandle \<Rightarrow> blob option
     \<Rightarrow> fault + (bool \<times> 'p host \<times> blob option)" where
  "sceAvPlayerGetVideoData ec impl s handle video_info =
     (if handle = None \<or> video_info = None
      then Inr (s32_to_bool (ORBIS_AVPLAYER_ERROR_INVALID_PARAMS ec), s, video_info)
      else case objects s (the handle) of
        None \<Rightarrow> Inl DanglingHandle
      | Some p \<Rightarrow>
          (let (res, p', info') = GetVideoData impl p (the video_info)
           in Inr (res, s\<lparr>objects := (objects s)(the handle \<mapsto> p')\<rparr>, Some info')))"

definition sceAvPlayerGetVideoDataEx ::
  "error_codes \<Rightarrow> 'p AvPlayer \<Rightarrow> 'p host \<Rightarrow> SceAvPlayerHandle \<Rightarrow> blob option
     \<Rightarrow> fault + (bool \<times> 'p host \<times> blob option)" where
  "sceAvPlayerGetVideoDataEx ec impl s handle video_info =
     (if handle = None \<or> video_info = None
      then Inr (s32_to_bool (ORBIS_AVPLAYER_ERROR_INVALID_PARAMS ec), s, video_info)
      else case objects s (the handle) of
        None \<Rightarrow> Inl DanglingHandle
      | Some p \<Rightarrow>
          (let (res, p', info') = GetVideoDataEx impl p (the video_info)
           in Inr (res, s\<lparr>objects := (objects s)(the handle \<mapsto> p')\<rparr>, Some info')))"

definition sceAvPlayerIsActive ::
  "error_codes \<Rightarrow> 'p AvPlayer \<Rightarrow> 'p host \<Rightarrow> SceAvPlayerHandle \<Rightarrow> fault + (bool \<times> 'p host)" where
  "sceAvPlayerIsActive ec impl s handle =
     (if handle = None then Inr (s32_to_bool (ORBIS_AVPLAYER_ERROR_INVALID_PARAMS ec), s)
      else case objects s (the handle) of
        None \<Rightarrow> Inl DanglingHandle
      | Some p \<Rightarrow>
          (let (res, p') = IsActive impl p
           in Inr (res, s\<lparr>objects := (objects s)(the handle \<mapsto> p')\<rparr>)))"

definition sceAvPlayerPostInit ::
  "error_codes \<Rightarrow> 'p AvPlayer \<Rightarrow> 'p host \<Rightarrow> SceAvPlayerHandle \<Rightarrow> blob option
     \<Rightarrow> fault + (s32 \<times> 'p host \<times> blob option)" where
  "sceAvPlayerPostInit ec impl s handle data =
     (if handle = None \<or> data = None
      then Inr (ORBIS_AVPLAYER_ERROR_INVALID_PARAMS ec, s, data)
      else case objects s (the handle) of
        None \<Rightarrow> Inl DanglingHandle
      | Some p \<Rightarrow>
          (let (res, p', data') = PostInit impl p (the data)
           in Inr (res, s\<lparr>objects := (objects s)(the handle \<mapsto> p')\<rparr>, Some data')))"

definition sceAvPlayerStart ::
  "error_codes \<Rightarrow> 'p AvPlayer \<Rightarrow> 'p host \<Rightarrow> SceAvPlayerHandle \<Rightarrow> fault + (s32 \<times> 'p host)" where
  "sceAvPlayerStart ec impl s handle =
     (if handle = None then Inr (ORBIS_AVPLAYER_ERROR_INVALID_PARAMS ec, s)
      else case objects s (the handle) of
        None \<Rightarrow> Inl DanglingHandle
      | Some p \<Rightarrow>
          (let (res, p') = Start impl p
           in Inr (res, s\<lparr>objects := (objects s)(the handle \<mapsto> p')\<rparr>)))"

definition sceAvPlayerStop ::
  "error_codes \<Rightarrow> 'p AvPlayer \<Rightarrow> 'p host \<Rightarrow> SceAvPlayerHandle \<Rightarrow> fault + (s32 \<times> 'p host)" where
  "sceAvPlayerStop ec impl s handle =
     (if handle = None then Inr (ORBIS_AVPLAYER_ERROR_INVALID_PARAMS ec, s)
      else case objects s (the handle) of
        None \<Rightarrow> Inl DanglingHandle
      | Some p \<Rightarrow>
          (let (res, p') = Stop impl p
           in Inr (res, s\<lparr>objects := (objects s)(the handle \<mapsto> p')\<rparr>)))"

definition sceAvPlayerStreamCount ::
  "error_codes \<Rightarrow> 'p AvPlayer \<Rightarrow> 'p host \<Rightarrow> SceAvPlayerHandle \<Rightarrow> fault + (s32 \<times> 'p host)" where
  "sceAvPlayerStreamCount ec impl s handle =
     (if handle = None then Inr (ORBIS_AVPLAYER_ERROR_INVALID_PARAMS ec, s)
      else case objects s (the handle) of
        None \<Rightarrow> Inl DanglingHandle
      | Some p \<Rightarrow>
          (let (res, p') = GetStreamCount impl p
           in Inr (res, s\<lparr>objects := (objects s)(the handle \<mapsto> p')\<rparr>)))"

subsection \<open>Stubs\<close>

text \<open>
  The stubs log \<^verbatim>\<open>(STUBBED) called\<close> and read none of their arguments but the handle, which
  they only compare with \<^verbatim>\<open>nullptr\<close>; they cannot fault. Arguments other than the handle
  are kept so that each definition has the parameters of its C++ function.
\<close>

definition sceAvPlayerAddSourceEx ::
  "error_codes \<Rightarrow> 'p host \<Rightarrow> SceAvPlayerHandle \<Rightarrow> s32 \<Rightarrow> blob option \<Rightarrow> s32 \<times> 'p host" where
  "sceAvPlayerAddSourceEx ec s handle uriType sourceDetails =
     (if handle = None then (ORBIS_AVPLAYER_ERROR_INVALID_PARAMS ec, s) else (ORBIS_OK ec, s))"

definition sceAvPlayerChangeStream :: "error_codes \<Rightarrow> 'p host \<Rightarrow> s32 \<times> 'p host" where
  "sceAvPlayerChangeStream ec s = (ORBIS_OK ec, s)"

definition sceAvPlayerDisableStream ::
  "error_codes \<Rightarrow> 'p host \<Rightarrow> SceAvPlayerHandle \<Rightarrow> u32 \<Rightarrow> s32 \<times> 'p host" where
  "sceAvPlayerDisableStream ec s handle stream_id =
     (if handle = None then (ORBIS_AVPLAYER_ERROR_INVALID_PARAMS ec, s) else (ORBIS_OK ec, s))"

definition sceAvPlayerJumpToTime ::
  "error_codes \<Rightarrow> 'p host \<Rightarrow> SceAvPlayerHandle \<Rightarrow> u64 \<Rightarrow> s32 \<times> 'p host" where
  "sceAvPlayerJumpToTime ec s handle jump_time_msec =
     (if handle = None then (ORBIS_AVPLAYER_ERROR_INVALID_PARAMS ec, s) else (ORBIS_OK ec, s))"

definition sceAvPlayerPause ::
  "error_codes \<Rightarrow> 'p host \<Rightarrow> SceAvPlayerHandle \<Rightarrow> s32 \<times> 'p host" where
  "sceAvPlayerPause ec s handle =
     (if handle = None then (ORBIS_AVPLAYER_ERROR_INVALID_PARAMS ec, s) else (ORBIS_OK ec, s))"

definition sceAvPlayerPrintf ::
  "error_codes \<Rightarrow> 'p host \<Rightarrow> string option \<Rightarrow> u64 list \<Rightarrow> s32 \<times> 'p host" where
  "sceAvPlayerPrintf ec s format args = (ORBIS_OK ec, s)"

definition sceAvPlayerResume ::
  "error_codes \<Rightarrow> 'p host \<Rightarrow> SceAvPlayerHandle \<Rightarrow> s32 \<times> 'p host" where
  "sceAvPlayerResume ec s handle =
     (if handle = None then (ORBIS_AVPLAYER_ERROR_INVALID_PARAMS ec, s) else (ORBIS_OK ec, s))"

definition sceAvPlayerSetAvSyncMode ::
  "error_codes \<Rightarrow> 'p host \<Rightarrow> SceAvPlayerHandle \<Rightarrow> s32 \<Rightarrow> s32 \<times> 'p host" where
  "sceAvPlayerSetAvSyncMode ec s handle sync_mode =
     (if handle = None then (ORBIS_AVPLAYER_ERROR_INVALID_PARAMS ec, s) else (ORBIS_OK ec, s))"

definition sceAvPlayerSetLogCallback ::
  "error_codes \<Rightarrow> 'p host \<Rightarrow> addr option \<Rightarrow> addr option \<Rightarrow> s32 \<times> 'p host" where
  "sceAvPlayerSetLogCallback ec s logCb user_data = (ORBIS_OK ec, s)"

definition sceAvPlayerSetLooping ::
  "error_codes \<Rightarrow> 'p host \<Rightarrow> SceAvPlayerHandle \<Rightarrow> bool \<Rightarrow> s32 \<times> 'p host" where
  "sceAvPlayerSetLooping ec s handle loop_flag =
     (if handle = None then (ORBIS_AVPLAYER_ERROR_INVALID_PARAMS ec, s) else (ORBIS_OK ec, s))"

definition sceAvPlayerSetTrickSpeed ::
  "error_codes \<Rightarrow> 'p host \<Rightarrow> SceAvPlayerHandle \<Rightarrow> s32 \<Rightarrow> s32 \<times> 'p host" where
  "sceAvPlayerSetTrickSpeed ec s handle trick_speed =
     (if handle = None then (ORBIS_AVPLAYER_ERROR_INVALID_PARAMS ec, s) else (ORBIS_OK ec, s))"

definition sceAvPlayerVprintf ::
  "error_codes \<Rightarrow> 'p host \<Rightarrow> string option \<Rightarrow> u64 list \<Rightarrow> s32 \<times> 'p host" where
  "sceAvPlayerVprintf ec s format args = (ORBIS_OK ec, s)"

subsection \<open>Initialisation\<close>

text \<open>
  \<^verbatim>\<open>new AvPlayer()\<close> takes the next free address. \<^verbatim>\<open>ThreadPriorities priorities{}\<close> starts
  with every field zero; \<^verbatim>\<open>sceAvPlayerInit\<close> assigns the four priorities and leaves the
  affinities zero.
\<close>

definition sceAvPlayerInit ::
  "'p AvPlayer \<Rightarrow> 'p host \<Rightarrow> SceAvPlayerInitData option \<Rightarrow> SceAvPlayerHandle \<times> 'p host" where
  "sceAvPlayerInit impl s data =
     (if data = None then (None, s)
      else if allocate (SceAvPlayerInitData.memory_replacement (the data)) = None \<or>
              allocate_texture (SceAvPlayerInitData.memory_replacement (the data)) = None \<or>
              deallocate (SceAvPlayerInitData.memory_replacement (the data)) = None \<or>
              deallocate_texture (SceAvPlayerInitData.memory_replacement (the data)) = None
      then (None, s)
      else
        (let base_priority =
               (if SceAvPlayerInitData.base_priority (the data) \<noteq> 0
                then SceAvPlayerInitData.base_priority (the data) else 700);
             priorities = \<lparr>
               ThreadPriorities.video_decoder_priority = GetPriority base_priority 5,
               video_decoder_affinity = 0,
               audio_decoder_priority = GetPriority base_priority 6,
               audio_decoder_affinity = 0,
               controller_priority = GetPriority base_priority 2,
               controller_affinity = 0,
               demuxer_priority = GetPriority base_priority 9,
               demuxer_affinity = 0\<rparr>;
             player = next_addr s
         in (Some player,
             s\<lparr>objects := (objects s)(player \<mapsto> Init impl (the data) priorities),
               next_addr := Suc player\<rparr>)))"

text \<open>
  \<^verbatim>\<open>scePthreadGetprio(scePthreadSelf(), &base_priority)\<close> belongs to the kernel library
  (\<^verbatim>\<open>thread_management.h\<close>). It is the parameter \<open>getprio\<close>: from the value the variable
  holds before the call (zero) to the status returned and the value it holds afterwards.
  The output slot \<^verbatim>\<open>p_player\<close> is \<open>None\<close> when the pointer is null and \<open>Some h\<close> when it
  points to a slot holding the handle \<open>h\<close>; the third component returned is the slot
  afterwards. \<^verbatim>\<open>SceAvPlayerInitData data = {}\<close> leaves \<^verbatim>\<open>base_priority\<close> zero.
\<close>

definition sceAvPlayerInitEx ::
  "error_codes \<Rightarrow> 'p AvPlayer \<Rightarrow> (s32 \<Rightarrow> s32 \<times> s32) \<Rightarrow> 'p host \<Rightarrow> SceAvPlayerInitDataEx option
     \<Rightarrow> SceAvPlayerHandle option \<Rightarrow> s32 \<times> 'p host \<times> SceAvPlayerHandle option" where
  "sceAvPlayerInitEx ec impl getprio s p_data p_player =
     (if p_data = None \<or> p_player = None
      then (ORBIS_AVPLAYER_ERROR_INVALID_PARAMS ec, s, p_player)
      else if allocate (SceAvPlayerInitDataEx.memory_replacement (the p_data)) = None \<or>
              allocate_texture (SceAvPlayerInitDataEx.memory_replacement (the p_data)) = None \<or>
              deallocate (SceAvPlayerInitDataEx.memory_replacement (the p_data)) = None \<or>
              deallocate_texture (SceAvPlayerInitDataEx.memory_replacement (the p_data)) = None
      then (ORBIS_AVPLAYER_ERROR_INVALID_PARAMS ec, s, p_player)
      else
        (let data = \<lparr>
               SceAvPlayerInitData.memory_replacement =
                 SceAvPlayerInitDataEx.memory_replacement (the p_data),
               file_replacement = SceAvPlayerInitDataEx.file_replacement (the p_data),
               event_replacement = SceAvPlayerInitDataEx.event_replacement (the p_data),
               default_language = SceAvPlayerInitDataEx.default_language (the p_data),
               num_output_video_framebuffers =
                 SceAvPlayerInitDataEx.num_output_video_framebuffers (the p_data),
               auto_start = SceAvPlayerInitDataEx.auto_start (the p_data),
               base_priority = 0\<rparr>;
             (res, queried) = getprio 0;
             base_priority = (if res \<noteq> 0 \<or> queried = 0 then 700 else queried);
             priorities = \<lparr>
               ThreadPriorities.video_decoder_priority =
                 (if SceAvPlayerInitDataEx.video_decoder_priority (the p_data) \<noteq> 0
                  then SceAvPlayerInitDataEx.video_decoder_priority (the p_data)
                  else GetPriority base_priority 5),
               video_decoder_affinity = SceAvPlayerInitDataEx.video_decoder_affinity (the p_data),
               audio_decoder_priority =
                 (if SceAvPlayerInitDataEx.audio_decoder_priority (the p_data) \<noteq> 0
                  then SceAvPlayerInitDataEx.audio_decoder_priority (the p_data)
                  else GetPriority base_priority 6),
               audio_decoder_affinity = SceAvPlayerInitDataEx.audio_decoder_affinity (the p_data),
               controller_priority =
                 (if SceAvPlayerInitDataEx.controller_priority (the p_data) \<noteq> 0
                  then SceAvPlayerInitDataEx.controller_priority (the p_data)
                  else GetPriority base_priority 2),
               controller_affinity = SceAvPlayerInitDataEx.controller_affinity (the p_data),
               demuxer_priority =
                 (if SceAvPlayerInitDataEx.demuxer_priority (the p_data) \<noteq> 0
                  then SceAvPlayerInitDataEx.demuxer_priority (the p_data)
                  else GetPriority base_priority 9),
               demuxer_affinity = SceAvPlayerInitDataEx.demuxer_affinity (the p_data)\<rparr>;
             player = next_addr s
         in (ORBIS_OK ec,
             s\<lparr>objects := (objects s)(player \<mapsto> Init impl data priorities),
               next_addr := Suc player\<rparr>,
             Some (Some player))))"

subsection \<open>Concrete inputs\<close>

text \<open>
  Inputs on which the entry points are run below. \<open>sce_codes\<close> holds the values the two
  status constants have in the PlayStation 4 interface that \<^verbatim>\<open>error_codes.h\<close> mirrors
  (success is zero, the AvPlayer errors are \<^verbatim>\<open>0x806A00xx\<close>). \<open>recorder\<close> is a player whose
  state is the pair of arguments \<^verbatim>\<open>Init\<close> received, so that what an initialisation passed
  on can be read from the heap; its other methods answer zero or \<^verbatim>\<open>false\<close> and change
  nothing.
\<close>

definition sce_codes :: error_codes where
  "sce_codes = \<lparr>ORBIS_OK = 0, ORBIS_AVPLAYER_ERROR_INVALID_PARAMS = 0x806A0001\<rparr>"

definition recorder :: "(SceAvPlayerInitData \<times> ThreadPriorities) AvPlayer" where
  "recorder = \<lparr>
     Init = Pair,
     PostInit = (\<lambda>p b. (0, p, b)),
     AddSource = (\<lambda>p f. (0, p)),
     CurrentTime = (\<lambda>p. (0, p)),
     EnableStream = (\<lambda>p i. (0, p)),
     GetAudioData = (\<lambda>p b. (False, p, b)),
     GetStreamInfo = (\<lambda>p i b. (0, p, b)),
     GetVideoData = (\<lambda>p b. (False, p, b)),
     GetVideoDataEx = (\<lambda>p b. (False, p, b)),
     IsActive = (\<lambda>p. (False, p)),
     Start = (\<lambda>p. (0, p)),
     Stop = (\<lambda>p. (0, p)),
     GetStreamCount = (\<lambda>p. (0, p))\<rparr>"

definition empty_host :: "'p host" where
  "empty_host = \<lparr>objects = Map.empty, next_addr = 0\<rparr>"

definition allocators :: SceAvPlayerMemAllocator where
  "allocators = \<lparr>allocate = Some 1, allocate_texture = Some 2,
                  deallocate = Some 3, deallocate_texture = Some 4\<rparr>"

definition init_data :: SceAvPlayerInitData where
  "init_data = \<lparr>
     SceAvPlayerInitData.memory_replacement = allocators,
     file_replacement = [],
     event_replacement = [],
     default_language = None,
     num_output_video_framebuffers = 2,
     auto_start = True,
     base_priority = 0\<rparr>"

definition init_data_ex :: SceAvPlayerInitDataEx where
  "init_data_ex = \<lparr>
     SceAvPlayerInitDataEx.memory_replacement = allocators,
     file_replacement = [],
     event_replacement = [],
     default_language = None,
     num_output_video_framebuffers = 2,
     auto_start = True,
     video_decoder_priority = 0,
     video_decoder_affinity = 1,
     audio_decoder_priority = 650,
     audio_decoder_affinity = 2,
     controller_priority = 0,
     controller_affinity = 4,
     demuxer_priority = 1,
     demuxer_affinity = 8\<rparr>"

text \<open>
  \<open>active_player\<close> is a player whose state counts the frames handed out and whose queries
  all answer \<^verbatim>\<open>true\<close>.
\<close>

definition active_player :: "nat AvPlayer" where
  "active_player = \<lparr>
     Init = (\<lambda>d p. 0),
     PostInit = (\<lambda>p b. (0, p, b)),
     AddSource = (\<lambda>p f. (0, p)),
     CurrentTime = (\<lambda>p. (0, p)),
     EnableStream = (\<lambda>p i. (0, p)),
     GetAudioData = (\<lambda>p b. (True, Suc p, b)),
     GetStreamInfo = (\<lambda>p i b. (0, p, b)),
     GetVideoData = (\<lambda>p b. (True, Suc p, b)),
     GetVideoDataEx = (\<lambda>p b. (True, Suc p, b)),
     IsActive = (\<lambda>p. (True, p)),
     Start = (\<lambda>p. (0, p)),
     Stop = (\<lambda>p. (0, p)),
     GetStreamCount = (\<lambda>p. (0, p))\<rparr>"

section \<open>Properties\<close>

subsection \<open>Priority derivation\<close>

text \<open>
  With an offset of at most 1000 the addition in \<^verbatim>\<open>GetPriority\<close> cannot wrap: the clamped
  base is at most 764. The result read as a natural number is then the formula over the
  natural numbers, for every base.
\<close>

lemma GetPriority_unat:
  "unat offset \<le> 1000 \<Longrightarrow>
   unat (GetPriority base offset) = min (min (max 637 (unat base)) 764 + unat offset) 767"
  unfolding GetPriority_def
  by (simp add: min_def max_def word_le_nat_alt unat_word_ariths word_less_nat_alt)

text \<open>
  Claim C1. For every base priority in [0, 1000] and every offset among 2, 5, 6 and 9,
  \<^verbatim>\<open>GetPriority\<close> returns min(min(max(637, base), 764) + offset, 767), computed over the
  natural numbers; in particular it maps (0, 5) to 642, (700, 5) to 705, (1000, 9) to 767
  and (637, 2) to 639.
\<close>

theorem GetPriority_derive:
  assumes "base \<le> 1000" and "offset \<in> {2, 5, 6, 9}"
  shows "unat (GetPriority base offset) = min (min (max 637 (unat base)) 764 + unat offset) 767
       \<and> GetPriority 0 5 = 642 \<and> GetPriority 700 5 = 705
       \<and> GetPriority 1000 9 = 767 \<and> GetPriority 637 2 = 639"
proof -
  from assms(2) have "unat offset \<le> 1000" by auto
  then have "unat (GetPriority base offset) = min (min (max 637 (unat base)) 764 + unat offset) 767"
    by (rule GetPriority_unat)
  moreover have "GetPriority 0 5 = 642" "GetPriority 700 5 = 705"
    "GetPriority 1000 9 = 767" "GetPriority 637 2 = 639"
    by (simp_all add: GetPriority_def)
  ultimately show ?thesis by simp
qed

theorem GetPriority_derive_witness:
  "(1000 :: u32) \<le> 1000 \<and> (9 :: u32) \<in> {2, 5, 6, 9} \<and> unat (GetPriority 1000 9) = 767"
  using GetPriority_derive [of 1000 9] by simp

subsection \<open>Initialisation\<close>

text \<open>
  Claim C10. \<^verbatim>\<open>sceAvPlayerInit\<close> called with a null configuration returns the null handle
  and leaves the heap as it was: no player is constructed. \<^verbatim>\<open>sceAvPlayerInitEx\<close> called
  with a null configuration or a null output slot returns \<^verbatim>\<open>INVALID_PARAMS\<close>, leaves the
  heap as it was and does not write the slot.
\<close>

theorem null_config:
  "sceAvPlayerInit impl s None = (None, s) \<and>
   (p_data = None \<or> p_player = None \<longrightarrow>
      sceAvPlayerInitEx ec impl getprio s p_data p_player =
        (ORBIS_AVPLAYER_ERROR_INVALID_PARAMS ec, s, p_player))"
  by (simp add: sceAvPlayerInit_def sceAvPlayerInitEx_def)

theorem null_config_witness:
  "sceAvPlayerInit recorder empty_host None = (None, empty_host) \<and>
   sceAvPlayerInitEx sce_codes recorder (\<lambda>v. (0, 700)) empty_host None (Some None) =
     (0x806A0001, empty_host, Some None) \<and>
   sceAvPlayerInitEx sce_codes recorder (\<lambda>v. (0, 700)) empty_host (Some init_data_ex) None =
     (0x806A0001, empty_host, None)"
  using null_config [of recorder empty_host None "Some None" sce_codes "\<lambda>v. (0, 700)"]
    null_config [of recorder empty_host "Some init_data_ex" None sce_codes "\<lambda>v. (0, 700)"]
  by (simp add: sce_codes_def)

text \<open>
  Claim C3. When one of the four memory callbacks of a configuration is null,
  \<^verbatim>\<open>sceAvPlayerInit\<close> returns the null handle whatever the other fields hold, and
  \<^verbatim>\<open>sceAvPlayerInitEx\<close> returns \<^verbatim>\<open>INVALID_PARAMS\<close>; neither constructs a player.
\<close>

theorem missing_allocator_rejected:
  assumes "allocate m = None \<or> allocate_texture m = None \<or>
           deallocate m = None \<or> deallocate_texture m = None"
  shows "sceAvPlayerInit impl s (Some (d\<lparr>SceAvPlayerInitData.memory_replacement := m\<rparr>)) = (None, s) \<and>
         sceAvPlayerInitEx ec impl getprio s
             (Some (dx\<lparr>SceAvPlayerInitDataEx.memory_replacement := m\<rparr>)) p_player =
           (ORBIS_AVPLAYER_ERROR_INVALID_PARAMS ec, s, p_player)"
  using assms by (auto simp add: sceAvPlayerInit_def sceAvPlayerInitEx_def)

theorem missing_allocator_rejected_witness:
  "deallocate (allocators\<lparr>deallocate := None\<rparr>) = None \<and>
   sceAvPlayerInit recorder empty_host
       (Some (init_data\<lparr>SceAvPlayerInitData.memory_replacement := allocators\<lparr>deallocate := None\<rparr>\<rparr>)) =
     (None, empty_host) \<and>
   sceAvPlayerInitEx sce_codes recorder (\<lambda>v. (0, 700)) empty_host
       (Some (init_data_ex\<lparr>SceAvPlayerInitDataEx.memory_replacement := allocators\<lparr>deallocate := None\<rparr>\<rparr>))
       (Some None) =
     (0x806A0001, empty_host, Some None)"
  using missing_allocator_rejected [of "allocators\<lparr>deallocate := None\<rparr>" recorder empty_host
      init_data sce_codes "\<lambda>v. (0, 700)" init_data_ex "Some None"]
  by (simp add: sce_codes_def)

text \<open>
  Claim C5. With the four memory callbacks present, \<^verbatim>\<open>sceAvPlayerInit\<close> on a configuration
  whose \<^verbatim>\<open>base_priority\<close> is 0 hands \<^verbatim>\<open>AvPlayer::Init\<close> the same thread priorities as on
  the same configuration with \<^verbatim>\<open>base_priority\<close> 700: 705 for the video decoder, 706 for
  the audio decoder, 709 for the demuxer and 702 for the controller.
\<close>

theorem Init_zero_base_is_700:
  assumes "allocate (SceAvPlayerInitData.memory_replacement d) \<noteq> None"
      and "allocate_texture (SceAvPlayerInitData.memory_replacement d) \<noteq> None"
      and "deallocate (SceAvPlayerInitData.memory_replacement d) \<noteq> None"
      and "deallocate_texture (SceAvPlayerInitData.memory_replacement d) \<noteq> None"
  shows "\<exists>priorities.
      sceAvPlayerInit impl s (Some (d\<lparr>base_priority := 0\<rparr>)) =
        (Some (next_addr s),
         s\<lparr>objects := (objects s)(next_addr s \<mapsto> Init impl (d\<lparr>base_priority := 0\<rparr>) priorities),
           next_addr := Suc (next_addr s)\<rparr>) \<and>
      sceAvPlayerInit impl s (Some (d\<lparr>base_priority := 700\<rparr>)) =
        (Some (next_addr s),
         s\<lparr>objects := (objects s)(next_addr s \<mapsto> Init impl (d\<lparr>base_priority := 700\<rparr>) priorities),
           next_addr := Suc (next_addr s)\<rparr>) \<and>
      priorities = \<lparr>ThreadPriorities.video_decoder_priority = 705, video_decoder_affinity = 0,
         audio_decoder_priority = 706, audio_decoder_affinity = 0,
         controller_priority = 702, controller_affinity = 0,
         demuxer_priority = 709, demuxer_affinity = 0\<rparr>"
  using assms by (simp add: sceAvPlayerInit_def GetPriority_def Let_def)

theorem Init_zero_base_is_700_witness:
  "allocate (SceAvPlayerInitData.memory_replacement init_data) \<noteq> None \<and>
   allocate_texture (SceAvPlayerInitData.memory_replacement init_data) \<noteq> None \<and>
   deallocate (SceAvPlayerInitData.memory_replacement init_data) \<noteq> None \<and>
   deallocate_texture (SceAvPlayerInitData.memory_replacement init_data) \<noteq> None \<and>
   map_option snd (objects (snd (sceAvPlayerInit recorder empty_host (Some (init_data\<lparr>base_priority := 0\<rparr>)))) 0) =
   map_option snd (objects (snd (sceAvPlayerInit recorder empty_host (Some (init_data\<lparr>base_priority := 700\<rparr>)))) 0) \<and>
   map_option snd (objects (snd (sceAvPlayerInit recorder empty_host (Some (init_data\<lparr>base_priority := 0\<rparr>)))) 0) =
     Some \<lparr>ThreadPriorities.video_decoder_priority = 705, video_decoder_affinity = 0,
         audio_decoder_priority = 706, audio_decoder_affinity = 0,
         controller_priority = 702, controller_affinity = 0,
         demuxer_priority = 709, demuxer_affinity = 0\<rparr>"
  using Init_zero_base_is_700 [of init_data recorder empty_host]
  by (auto simp add: init_data_def allocators_def recorder_def empty_host_def)

text \<open>
  What \<^verbatim>\<open>sceAvPlayerInitEx\<close> does once its arguments are accepted, written out: the player
  it constructs, from the copied configuration and the thread priorities.
\<close>

lemma InitEx_created:
  assumes "allocate (SceAvPlayerInitDataEx.memory_replacement dx) \<noteq> None"
      and "allocate_texture (SceAvPlayerInitDataEx.memory_replacement dx) \<noteq> None"
      and "deallocate (SceAvPlayerInitDataEx.memory_replacement dx) \<noteq> None"
      and "deallocate_texture (SceAvPlayerInitDataEx.memory_replacement dx) \<noteq> None"
      and "getprio 0 = (res, queried)"
      and "base = (if res \<noteq> 0 \<or> queried = 0 then 700 else queried)"
  shows "sceAvPlayerInitEx ec impl getprio s (Some dx) (Some slot) =
        (ORBIS_OK ec,
         s\<lparr>objects := (objects s)(next_addr s \<mapsto> Init impl
             \<lparr>SceAvPlayerInitData.memory_replacement = SceAvPlayerInitDataEx.memory_replacement dx,
               file_replacement = SceAvPlayerInitDataEx.file_replacement dx,
               event_replacement = SceAvPlayerInitDataEx.event_replacement dx,
               default_language = SceAvPlayerInitDataEx.default_language dx,
               num_output_video_framebuffers = SceAvPlayerInitDataEx.num_output_video_framebuffers dx,
               auto_start = SceAvPlayerInitDataEx.auto_start dx,
               base_priority = 0\<rparr>
             \<lparr>ThreadPriorities.video_decoder_priority =
                 (if SceAvPlayerInitDataEx.video_decoder_priority dx \<noteq> 0
                  then SceAvPlayerInitDataEx.video_decoder_priority dx else GetPriority base 5),
               video_decoder_affinity = SceAvPlayerInitDataEx.video_decoder_affinity dx,
               audio_decoder_priority =
                 (if SceAvPlayerInitDataEx.audio_decoder_priority dx \<noteq> 0
                  then SceAvPlayerInitDataEx.audio_decoder_priority dx else GetPriority base 6),
               audio_decoder_affinity = SceAvPlayerInitDataEx.audio_decoder_affinity dx,
               controller_priority =
                 (if SceAvPlayerInitDataEx.controller_priority dx \<noteq> 0
                  then SceAvPlayerInitDataEx.controller_priority dx else GetPriority base 2),
               controller_affinity = SceAvPlayerInitDataEx.controller_affinity dx,
               demuxer_priority =
                 (if SceAvPlayerInitDataEx.demuxer_priority dx \<noteq> 0
                  then SceAvPlayerInitDataEx.demuxer_priority dx else GetPriority base 9),
               demuxer_affinity = SceAvPlayerInitDataEx.demuxer_affinity dx\<rparr>),
           next_addr := Suc (next_addr s)\<rparr>,
         Some (Some (next_addr s)))"
  using assms by (simp add: sceAvPlayerInitEx_def Let_def del: not_None_eq)

text \<open>
  Claim C4. In \<^verbatim>\<open>sceAvPlayerInitEx\<close>, for the video decoder, the audio decoder, the demuxer
  and the controller: a nonzero override priority of the configuration is the priority
  handed to \<^verbatim>\<open>AvPlayer::Init\<close>, unchanged; a zero override gives \<^verbatim>\<open>GetPriority\<close> of the
  base priority that \<^verbatim>\<open>sceAvPlayerInitEx\<close> computed from the thread-priority query (the
  queried priority, or 700 when the query failed or wrote zero) and the offset 5, 6, 9 or 2
  respectively.
\<close>

theorem InitEx_override:
  assumes "allocate (SceAvPlayerInitDataEx.memory_replacement dx) \<noteq> None"
      and "allocate_texture (SceAvPlayerInitDataEx.memory_replacement dx) \<noteq> None"
      and "deallocate (SceAvPlayerInitDataEx.memory_replacement dx) \<noteq> None"
      and "deallocate_texture (SceAvPlayerInitDataEx.memory_replacement dx) \<noteq> None"
      and "getprio 0 = (res, queried)"
      and "base = (if res \<noteq> 0 \<or> queried = 0 then 700 else queried)"
  shows "\<exists>data priorities.
      sceAvPlayerInitEx ec impl getprio s (Some dx) (Some slot) =
        (ORBIS_OK ec,
         s\<lparr>objects := (objects s)(next_addr s \<mapsto> Init impl data priorities),
           next_addr := Suc (next_addr s)\<rparr>,
         Some (Some (next_addr s))) \<and>
      ThreadPriorities.video_decoder_priority priorities =
        (if SceAvPlayerInitDataEx.video_decoder_priority dx \<noteq> 0
         then SceAvPlayerInitDataEx.video_decoder_priority dx else GetPriority base 5) \<and>
      ThreadPriorities.audio_decoder_priority priorities =
        (if SceAvPlayerInitDataEx.audio_decoder_priority dx \<noteq> 0
         then SceAvPlayerInitDataEx.audio_decoder_priority dx else GetPriority base 6) \<and>
      ThreadPriorities.demuxer_priority priorities =
        (if SceAvPlayerInitDataEx.demuxer_priority dx \<noteq> 0
         then SceAvPlayerInitDataEx.demuxer_priority dx else GetPriority base 9) \<and>
      ThreadPriorities.controller_priority priorities =
        (if SceAvPlayerInitDataEx.controller_priority dx \<noteq> 0
         then SceAvPlayerInitDataEx.controller_priority dx else GetPriority base 2)"
proof -
  note created = InitEx_created [where getprio = getprio and ec = ec and impl = impl
      and s = s and slot = slot, OF assms]
  show ?thesis
    apply (intro exI conjI)
    apply (rule created)
    apply simp_all
    done
qed

text \<open>
  The witness runs the configuration \<open>init_data_ex\<close> (video and controller overrides zero,
  audio override 650, demuxer override 1) with a query that writes 650, where the derived
  priorities are 655 and 652, and with a failing query, where they are 705 and 702.
\<close>

theorem InitEx_override_witness:
  "allocate (SceAvPlayerInitDataEx.memory_replacement init_data_ex) \<noteq> None \<and>
   allocate_texture (SceAvPlayerInitDataEx.memory_replacement init_data_ex) \<noteq> None \<and>
   deallocate (SceAvPlayerInitDataEx.memory_replacement init_data_ex) \<noteq> None \<and>
   deallocate_texture (SceAvPlayerInitDataEx.memory_replacement init_data_ex) \<noteq> None \<and>
   fst (sceAvPlayerInitEx sce_codes recorder (\<lambda>v. (0, 650)) empty_host (Some init_data_ex) (Some None)) = 0 \<and>
   map_option snd (objects (fst (snd
       (sceAvPlayerInitEx sce_codes recorder (\<lambda>v. (0, 650)) empty_host (Some init_data_ex) (Some None)))) 0) =
     Some \<lparr>ThreadPriorities.video_decoder_priority = 655, video_decoder_affinity = 1,
         audio_decoder_priority = 650, audio_decoder_affinity = 2,
         controller_priority = 652, controller_affinity = 4,
         demuxer_priority = 1, demuxer_affinity = 8\<rparr> \<and>
   map_option snd (objects (fst (snd
       (sceAvPlayerInitEx sce_codes recorder (\<lambda>v. (22, 650)) empty_host (Some init_data_ex) (Some None)))) 0) =
     Some \<lparr>ThreadPriorities.video_decoder_priority = 705, video_decoder_affinity = 1,
         audio_decoder_priority = 650, audio_decoder_affinity = 2,
         controller_priority = 702, controller_affinity = 4,
         demuxer_priority = 1, demuxer_affinity = 8\<rparr>"
  using InitEx_override [where dx = init_data_ex and getprio = "\<lambda>v. (0, 650)" and res = 0
      and queried = 650 and base = 650 and ec = sce_codes and impl = recorder
      and s = empty_host and slot = None]
    InitEx_override [where dx = init_data_ex and getprio = "\<lambda>v. (22, 650)" and res = 22
      and queried = 650 and base = 700 and ec = sce_codes and impl = recorder
      and s = empty_host and slot = None]
  by (simp add: init_data_ex_def allocators_def recorder_def empty_host_def sce_codes_def
        GetPriority_def sceAvPlayerInitEx_def Let_def)

text \<open>
  Claim C6. The base priority \<^verbatim>\<open>sceAvPlayerInitEx\<close> derives from is the priority the
  thread-priority query wrote, and 700 when the query returned a nonzero status or wrote
  the priority zero.
\<close>

theorem InitEx_base:
  assumes "allocate (SceAvPlayerInitDataEx.memory_replacement dx) \<noteq> None"
      and "allocate_texture (SceAvPlayerInitDataEx.memory_replacement dx) \<noteq> None"
      and "deallocate (SceAvPlayerInitDataEx.memory_replacement dx) \<noteq> None"
      and "deallocate_texture (SceAvPlayerInitDataEx.memory_replacement dx) \<noteq> None"
      and "getprio 0 = (res, queried)"
  shows "\<exists>base data priorities.
      sceAvPlayerInitEx ec impl getprio s (Some dx) (Some slot) =
        (ORBIS_OK ec,
         s\<lparr>objects := (objects s)(next_addr s \<mapsto> Init impl data priorities),
           next_addr := Suc (next_addr s)\<rparr>,
         Some (Some (next_addr s))) \<and>
      base = (if res \<noteq> 0 \<or> queried = 0 then 700 else queried) \<and>
      (SceAvPlayerInitDataEx.video_decoder_priority dx = 0 \<longrightarrow>
         ThreadPriorities.video_decoder_priority priorities = GetPriority base 5) \<and>
      (SceAvPlayerInitDataEx.audio_decoder_priority dx = 0 \<longrightarrow>
         ThreadPriorities.audio_decoder_priority priorities = GetPriority base 6) \<and>
      (SceAvPlayerInitDataEx.demuxer_priority dx = 0 \<longrightarrow>
         ThreadPriorities.demuxer_priority priorities = GetPriority base 9) \<and>
      (SceAvPlayerInitDataEx.controller_priority dx = 0 \<longrightarrow>
         ThreadPriorities.controller_priority priorities = GetPriority base 2)"
proof -
  define base where "base = (if res \<noteq> 0 \<or> queried = 0 then 700 else queried)"
  note created = InitEx_created [where getprio = getprio and ec = ec and impl = impl and s = s and slot = slot, OF assms base_def]
  show ?thesis
    apply (rule exI [of _ base])
    apply (intro exI conjI)
    apply (rule created)
    apply (simp_all add: base_def)
    done
qed

theorem InitEx_base_witness:
  "allocate (SceAvPlayerInitDataEx.memory_replacement init_data_ex) \<noteq> None \<and>
   allocate_texture (SceAvPlayerInitDataEx.memory_replacement init_data_ex) \<noteq> None \<and>
   deallocate (SceAvPlayerInitDataEx.memory_replacement init_data_ex) \<noteq> None \<and>
   deallocate_texture (SceAvPlayerInitDataEx.memory_replacement init_data_ex) \<noteq> None \<and>
   SceAvPlayerInitDataEx.video_decoder_priority init_data_ex = 0 \<and>
   SceAvPlayerInitDataEx.controller_priority init_data_ex = 0 \<and>
   map_option (ThreadPriorities.video_decoder_priority \<circ> snd) (objects (fst (snd
       (sceAvPlayerInitEx sce_codes recorder (\<lambda>v. (0, 650)) empty_host (Some init_data_ex) (Some None)))) 0) =
     Some 655 \<and>
   map_option (ThreadPriorities.controller_priority \<circ> snd) (objects (fst (snd
       (sceAvPlayerInitEx sce_codes recorder (\<lambda>v. (0, 650)) empty_host (Some init_data_ex) (Some None)))) 0) =
     Some 652 \<and>
   map_option (ThreadPriorities.video_decoder_priority \<circ> snd) (objects (fst (snd
       (sceAvPlayerInitEx sce_codes recorder (\<lambda>v. (22, 650)) empty_host (Some init_data_ex) (Some None)))) 0) =
     Some 705 \<and>
   map_option (ThreadPriorities.video_decoder_priority \<circ> snd) (objects (fst (snd
       (sceAvPlayerInitEx sce_codes recorder (\<lambda>v. (0, 0)) empty_host (Some init_data_ex) (Some None)))) 0) =
     Some 705"
  using InitEx_base [of init_data_ex "\<lambda>v. (0, 650)" 0 650 sce_codes recorder empty_host None]
    InitEx_base [of init_data_ex "\<lambda>v. (22, 650)" 22 650 sce_codes recorder empty_host None]
    InitEx_base [of init_data_ex "\<lambda>v. (0, 0)" 0 0 sce_codes recorder empty_host None]
  by (simp add: init_data_ex_def allocators_def recorder_def empty_host_def sce_codes_def
        GetPriority_def sceAvPlayerInitEx_def Let_def)

subsection \<open>Stubs and Close\<close>

text \<open>
  Claim C7. Each stub (\<^verbatim>\<open>AddSourceEx\<close>, \<^verbatim>\<open>ChangeStream\<close>, \<^verbatim>\<open>JumpToTime\<close>, \<^verbatim>\<open>Pause\<close>,
  \<^verbatim>\<open>Resume\<close>, \<^verbatim>\<open>SetAvSyncMode\<close>, \<^verbatim>\<open>SetLogCallback\<close>, \<^verbatim>\<open>SetLooping\<close>, \<^verbatim>\<open>SetTrickSpeed\<close>,
  \<^verbatim>\<open>Printf\<close>, \<^verbatim>\<open>Vprintf\<close>) returns \<^verbatim>\<open>ORBIS_OK\<close> on a non-null handle, returns
  \<^verbatim>\<open>INVALID_PARAMS\<close> on a null handle when it has a handle parameter, and leaves the heap
  as it was.
\<close>

theorem stubs_succeed:
  "sceAvPlayerAddSourceEx ec s None uriType sourceDetails = (ORBIS_AVPLAYER_ERROR_INVALID_PARAMS ec, s) \<and>
   sceAvPlayerAddSourceEx ec s (Some a) uriType sourceDetails = (ORBIS_OK ec, s) \<and>
   sceAvPlayerChangeStream ec s = (ORBIS_OK ec, s) \<and>
   sceAvPlayerJumpToTime ec s None jump_time_msec = (ORBIS_AVPLAYER_ERROR_INVALID_PARAMS ec, s) \<and>
   sceAvPlayerJumpToTime ec s (Some a) jump_time_msec = (ORBIS_OK ec, s) \<and>
   sceAvPlayerPause ec s None = (ORBIS_AVPLAYER_ERROR_INVALID_PARAMS ec, s) \<and>
   sceAvPlayerPause ec s (Some a) = (ORBIS_OK ec, s) \<and>
   sceAvPlayerResume ec s None = (ORBIS_AVPLAYER_ERROR_INVALID_PARAMS ec, s) \<and>
   sceAvPlayerResume ec s (Some a) = (ORBIS_OK ec, s) \<and>
   sceAvPlayerSetAvSyncMode ec s None sync_mode = (ORBIS_AVPLAYER_ERROR_INVALID_PARAMS ec, s) \<and>
   sceAvPlayerSetAvSyncMode ec s (Some a) sync_mode = (ORBIS_OK ec, s) \<and>
   sceAvPlayerSetLogCallback ec s logCb user_data = (ORBIS_OK ec, s) \<and>
   sceAvPlayerSetLooping ec s None loop_flag = (ORBIS_AVPLAYER_ERROR_INVALID_PARAMS ec, s) \<and>
   sceAvPlayerSetLooping ec s (Some a) loop_flag = (ORBIS_OK ec, s) \<and>
   sceAvPlayerSetTrickSpeed ec s None trick_speed = (ORBIS_AVPLAYER_ERROR_INVALID_PARAMS ec, s) \<and>
   sceAvPlayerSetTrickSpeed ec s (Some a) trick_speed = (ORBIS_OK ec, s) \<and>
   sceAvPlayerPrintf ec s format args = (ORBIS_OK ec, s) \<and>
   sceAvPlayerVprintf ec s format args = (ORBIS_OK ec, s)"
  by (simp add: sceAvPlayerAddSourceEx_def sceAvPlayerChangeStream_def sceAvPlayerJumpToTime_def
      sceAvPlayerPause_def sceAvPlayerResume_def sceAvPlayerSetAvSyncMode_def
      sceAvPlayerSetLogCallback_def sceAvPlayerSetLooping_def sceAvPlayerSetTrickSpeed_def
      sceAvPlayerPrintf_def sceAvPlayerVprintf_def)

theorem stubs_succeed_witness:
  "sceAvPlayerPause sce_codes (snd (sceAvPlayerInit recorder empty_host (Some init_data))) (Some 0) =
     (0, snd (sceAvPlayerInit recorder empty_host (Some init_data))) \<and>
   sceAvPlayerPause sce_codes (empty_host :: nat host) None = (0x806A0001, empty_host) \<and>
   sceAvPlayerSetLooping sce_codes (empty_host :: nat host) (Some 7) True = (0, empty_host) \<and>
   sceAvPlayerChangeStream sce_codes (empty_host :: nat host) = (0, empty_host) \<and>
   sceAvPlayerPrintf sce_codes (empty_host :: nat host) (Some ''%d'') [5] = (0, empty_host)"
  using stubs_succeed [of sce_codes "snd (sceAvPlayerInit recorder empty_host (Some init_data))"
      0 None 0 0 0 None None True 0 None "[]"]
    stubs_succeed [of sce_codes "empty_host :: nat host" 0 None 7 0 0 None None True 0
      "Some ''%d''" "[5]"]
  by (simp add: sce_codes_def)

text \<open>
  Claim C8. On a valid handle, whatever the state of its player, \<^verbatim>\<open>sceAvPlayerClose\<close>
  returns \<^verbatim>\<open>ORBIS_OK\<close> and deletes that player and no other: the live objects afterwards
  are those before without the handle, which is left dangling, so that nothing remains for a
  second delete.
\<close>

theorem Close_valid_handle:
  assumes "objects s a = Some p"
  shows "\<exists>s'. sceAvPlayerClose ec s (Some a) = Inr (ORBIS_OK ec, s') \<and>
           s' = s\<lparr>objects := (objects s)(a := None)\<rparr> \<and>
           dom (objects s') = dom (objects s) - {a} \<and>
           sceAvPlayerClose ec s' (Some a) = Inl DanglingHandle"
  using assms by (simp add: sceAvPlayerClose_def)

theorem Close_valid_handle_witness:
  "objects (snd (sceAvPlayerInit recorder empty_host (Some init_data))) 0 \<noteq> None \<and>
   sceAvPlayerClose sce_codes (snd (sceAvPlayerInit recorder empty_host (Some init_data))) (Some 0) =
     Inr (0, \<lparr>objects = Map.empty, next_addr = 1\<rparr>)"
  using Close_valid_handle [of "snd (sceAvPlayerInit recorder empty_host (Some init_data))" 0
      "the (objects (snd (sceAvPlayerInit recorder empty_host (Some init_data))) 0)" sce_codes]
  by (simp add: sceAvPlayerInit_def init_data_def allocators_def empty_host_def sce_codes_def Let_def)

subsection \<open>Null handles\<close>

text \<open>
  Claim C9. When \<^verbatim>\<open>INVALID_PARAMS\<close> is nonzero, the entry points declared \<^verbatim>\<open>bool\<close>
  (\<^verbatim>\<open>GetAudioData\<close>, \<^verbatim>\<open>GetVideoData\<close>, \<^verbatim>\<open>GetVideoDataEx\<close>, \<^verbatim>\<open>IsActive\<close>) return \<^verbatim>\<open>true\<close> on a
  null handle or a null output pointer, without touching the heap or the buffer. A call on
  a valid handle whose player answers \<^verbatim>\<open>true\<close> returns \<^verbatim>\<open>true\<close> as well, so the flag does
  not tell the rejected call from a successful one.
\<close>

theorem flag_true_on_null:
  assumes "ORBIS_AVPLAYER_ERROR_INVALID_PARAMS ec \<noteq> 0"
  shows "(handle = None \<or> p_info = None \<longrightarrow>
            sceAvPlayerGetAudioData ec impl s handle p_info = Inr (True, s, p_info)) \<and>
         (handle = None \<or> p_info = None \<longrightarrow>
            sceAvPlayerGetVideoData ec impl s handle p_info = Inr (True, s, p_info)) \<and>
         (handle = None \<or> p_info = None \<longrightarrow>
            sceAvPlayerGetVideoDataEx ec impl s handle p_info = Inr (True, s, p_info)) \<and>
         sceAvPlayerIsActive ec impl s None = Inr (True, s) \<and>
         (objects s a = Some p \<and> GetAudioData impl p info = (True, p', info') \<longrightarrow>
            sceAvPlayerGetAudioData ec impl s (Some a) (Some info) =
              Inr (True, s\<lparr>objects := (objects s)(a \<mapsto> p')\<rparr>, Some info')) \<and>
         (objects s a = Some p \<and> GetVideoData impl p info = (True, p', info') \<longrightarrow>
            sceAvPlayerGetVideoData ec impl s (Some a) (Some info) =
              Inr (True, s\<lparr>objects := (objects s)(a \<mapsto> p')\<rparr>, Some info')) \<and>
         (objects s a = Some p \<and> GetVideoDataEx impl p info = (True, p', info') \<longrightarrow>
            sceAvPlayerGetVideoDataEx ec impl s (Some a) (Some info) =
              Inr (True, s\<lparr>objects := (objects s)(a \<mapsto> p')\<rparr>, Some info')) \<and>
         (objects s a = Some p \<and> IsActive impl p = (True, p') \<longrightarrow>
            sceAvPlayerIsActive ec impl s (Some a) = Inr (True, s\<lparr>objects := (objects s)(a \<mapsto> p')\<rparr>))"
  using assms
  by (simp add: sceAvPlayerGetAudioData_def sceAvPlayerGetVideoData_def
      sceAvPlayerGetVideoDataEx_def sceAvPlayerIsActive_def s32_to_bool_def)

theorem flag_true_on_null_witness:
  "ORBIS_AVPLAYER_ERROR_INVALID_PARAMS sce_codes \<noteq> 0 \<and>
   sceAvPlayerGetAudioData sce_codes active_player empty_host None (Some [1, 2]) =
     Inr (True, empty_host, Some [1, 2]) \<and>
   sceAvPlayerGetVideoData sce_codes active_player empty_host (Some 0) None =
     Inr (True, empty_host, None) \<and>
   sceAvPlayerGetVideoDataEx sce_codes active_player empty_host None None =
     Inr (True, empty_host, None) \<and>
   sceAvPlayerIsActive sce_codes active_player empty_host None = Inr (True, empty_host) \<and>
   objects (snd (sceAvPlayerInit active_player empty_host (Some init_data))) 0 = Some 0 \<and>
   GetAudioData active_player 0 [1, 2] = (True, 1, [1, 2]) \<and>
   sceAvPlayerGetAudioData sce_codes active_player
       (snd (sceAvPlayerInit active_player empty_host (Some init_data))) (Some 0) (Some [1, 2]) =
     Inr (True, \<lparr>objects = [0 \<mapsto> 1], next_addr = 1\<rparr>, Some [1, 2]) \<and>
   IsActive active_player 0 = (True, 0) \<and>
   sceAvPlayerIsActive sce_codes active_player
       (snd (sceAvPlayerInit active_player empty_host (Some init_data))) (Some 0) =
     Inr (True, \<lparr>objects = [0 \<mapsto> 0], next_addr = 1\<rparr>)"
  using flag_true_on_null [where ec = sce_codes and handle = None and p_info = "Some [1, 2]"
      and impl = active_player and s = empty_host]
    flag_true_on_null [where ec = sce_codes and handle = "Some 0" and p_info = None
      and impl = active_player and s = empty_host]
    flag_true_on_null [where ec = sce_codes and handle = None and p_info = None
      and impl = active_player and s = empty_host]
    flag_true_on_null [where ec = sce_codes and impl = active_player
      and s = "snd (sceAvPlayerInit active_player empty_host (Some init_data))"
      and a = 0 and p = 0 and info = "[1, 2]" and p' = 1 and info' = "[1, 2]"]
    flag_true_on_null [where ec = sce_codes and impl = active_player
      and s = "snd (sceAvPlayerInit active_player empty_host (Some init_data))"
      and a = 0 and p = 0 and p' = 0]
  by (simp add: sce_codes_def active_player_def sceAvPlayerInit_def init_data_def allocators_def
      empty_host_def Let_def)

text \<open>
  The entry points that return a status, called with a null handle or a null pointer to a
  structure they require: each returns \<^verbatim>\<open>INVALID_PARAMS\<close> (widened to \<^verbatim>\<open>u64\<close> by
  \<^verbatim>\<open>sceAvPlayerCurrentTime\<close>) with the heap and the buffer as they were, whatever the
  methods of the player are.
\<close>

lemma null_handle_short_circuit:
  "sceAvPlayerAddSource ec impl s None filename = Inr (ORBIS_AVPLAYER_ERROR_INVALID_PARAMS ec, s)"
  "sceAvPlayerClose ec s None = Inr (ORBIS_AVPLAYER_ERROR_INVALID_PARAMS ec, s)"
  "sceAvPlayerCurrentTime ec impl s None = Inr (s32_to_u64 (ORBIS_AVPLAYER_ERROR_INVALID_PARAMS ec), s)"
  "sceAvPlayerDisableStream ec s None stream_id = (ORBIS_AVPLAYER_ERROR_INVALID_PARAMS ec, s)"
  "sceAvPlayerEnableStream ec impl s None stream_id = Inr (ORBIS_AVPLAYER_ERROR_INVALID_PARAMS ec, s)"
  "handle = None \<or> p_info = None \<Longrightarrow>
     sceAvPlayerGetStreamInfo ec impl s handle stream_id p_info =
       Inr (ORBIS_AVPLAYER_ERROR_INVALID_PARAMS ec, s, p_info)"
  "handle = None \<or> p_info = None \<Longrightarrow>
     sceAvPlayerPostInit ec impl s handle p_info =
       Inr (ORBIS_AVPLAYER_ERROR_INVALID_PARAMS ec, s, p_info)"
  "sceAvPlayerStart ec impl s None = Inr (ORBIS_AVPLAYER_ERROR_INVALID_PARAMS ec, s)"
  "sceAvPlayerStop ec impl s None = Inr (ORBIS_AVPLAYER_ERROR_INVALID_PARAMS ec, s)"
  "sceAvPlayerStreamCount ec impl s None = Inr (ORBIS_AVPLAYER_ERROR_INVALID_PARAMS ec, s)"
  by (simp_all add: sceAvPlayerAddSource_def sceAvPlayerClose_def sceAvPlayerCurrentTime_def
      sceAvPlayerDisableStream_def sceAvPlayerEnableStream_def sceAvPlayerGetStreamInfo_def
      sceAvPlayerPostInit_def sceAvPlayerStart_def sceAvPlayerStop_def sceAvPlayerStreamCount_def)

text \<open>
  Claim C2, at the entry points declared \<^verbatim>\<open>bool\<close>. With the interface's value of
  \<^verbatim>\<open>INVALID_PARAMS\<close>, \<^verbatim>\<open>sceAvPlayerIsActive\<close>, \<^verbatim>\<open>sceAvPlayerGetAudioData\<close>,
  \<^verbatim>\<open>sceAvPlayerGetVideoData\<close> and \<^verbatim>\<open>sceAvPlayerGetVideoDataEx\<close> called with a null handle
  return the flag \<^verbatim>\<open>true\<close>, and \<^verbatim>\<open>true\<close> read as a status is 1, not \<^verbatim>\<open>INVALID_PARAMS\<close>.
\<close>

theorem flag_on_null_handle_is_not_status:
  "sceAvPlayerIsActive sce_codes recorder empty_host None = Inr (True, empty_host) \<and>
   sceAvPlayerGetAudioData sce_codes recorder empty_host None (Some []) = Inr (True, empty_host, Some []) \<and>
   sceAvPlayerGetVideoData sce_codes recorder empty_host None (Some []) = Inr (True, empty_host, Some []) \<and>
   sceAvPlayerGetVideoDataEx sce_codes recorder empty_host None (Some []) = Inr (True, empty_host, Some []) \<and>
   bool_to_s32 True \<noteq> ORBIS_AVPLAYER_ERROR_INVALID_PARAMS sce_codes"
  by (simp add: sceAvPlayerGetAudioData_def sceAvPlayerGetVideoData_def
      sceAvPlayerGetVideoDataEx_def sceAvPlayerIsActive_def s32_to_bool_def bool_to_s32_def
      sce_codes_def)

end
